theory Spec2Isabelle
  imports Main
begin

section \<open>The trip form script: dependent city and station fields\<close>

text \<open>
  The script \<^verbatim>\<open>create_trip_form.js\<close> binds two city fields (\<^verbatim>\<open>#start_point\<close>,
  \<^verbatim>\<open>#end_point\<close>) to two station fields (\<^verbatim>\<open>#departure_station\<close>,
  \<^verbatim>\<open>#arrival_station\<close>). The file holds two versions of the script; the model follows
  the second one (the one with \<^verbatim>\<open>updateStations\<close> and the load-time initialisation).

  The page is a record of the four fields and of the GET requests that are in flight.
  Handlers run one at a time, so an execution is a list of events folded over the page.
  Strings are lists of \<^typ>\<open>char\<close>, one \<^typ>\<open>char\<close> for each code unit below 256.
\<close>

subsection \<open>Values and their coercions\<close>

text \<open>
  A JSON number is held as a double. The numbers of the model are the safe integers, from
  \<open>-(2^53 - 1)\<close> to \<open>2^53 - 1\<close>: the range in which every integer is a double and is
  printed as its plain decimal numeral. Other numbers (fractions, larger magnitudes) are
  floating-point values and are not values of the model.
\<close>

typedef safe_int = "{n :: int. - (2 ^ 53 - 1) \<le> n \<and> n \<le> 2 ^ 53 - 1}"
  by (rule exI [of _ 0]) simp

setup_lifting type_definition_safe_int

text \<open>
  What a JSON response can hold in \<^verbatim>\<open>item.id\<close> and \<^verbatim>\<open>item.text\<close>: \<open>JUndefined\<close> is a
  field that is missing, \<open>JObj\<close> an object with no field named \<^verbatim>\<open>toString\<close> or
  \<^verbatim>\<open>valueOf\<close> (whatever its other fields).
\<close>

datatype jsval =
  JUndefined | JNull | JBool bool | JNum safe_int | JStr string | JArr "jsval list" | JObj

definition digit_char :: "nat \<Rightarrow> char" where
  "digit_char d = ''0123456789'' ! d"

fun digits :: "nat \<Rightarrow> string" where
  "digits n = (if n < 10 then [digit_char n] else digits (n div 10) @ [digit_char (n mod 10)])"

declare digits.simps [simp del]

text \<open>
  What \<^verbatim>\<open>'...' + x\<close> makes of \<open>x\<close>. An array is joined with commas, and a \<^verbatim>\<open>null\<close> or
  missing element of an array gives the empty string.
\<close>

fun to_string :: "jsval \<Rightarrow> string"
  and join_elements :: "jsval list \<Rightarrow> string"
  and element_string :: "jsval \<Rightarrow> string" where
  "to_string JUndefined = ''undefined''"
| "to_string JNull = ''null''"
| "to_string (JBool b) = (if b then ''true'' else ''false'')"
| "to_string (JNum n) =
     (if Rep_safe_int n < 0 then ''-'' @ digits (nat (- Rep_safe_int n))
      else digits (nat (Rep_safe_int n)))"
| "to_string (JStr s) = s"
| "to_string (JArr xs) = join_elements xs"
| "to_string JObj = ''[object Object]''"
| "join_elements [] = []"
| "join_elements [x] = element_string x"
| "join_elements (x # y # ys) = element_string x @ '','' @ join_elements (y # ys)"
| "element_string JUndefined = []"
| "element_string JNull = []"
| "element_string v = to_string v"

text \<open>
  \<^verbatim>\<open>.val()\<close> of a single-choice select is a string, or \<^verbatim>\<open>null\<close> when no option is
  selected: \<open>None\<close> is \<^verbatim>\<open>null\<close>.
\<close>

type_synonym city_value = "string option"

text \<open>\<^verbatim>\<open>'...' + cityId\<close>\<close>

fun val_string :: "city_value \<Rightarrow> string" where
  "val_string None = ''null''"
| "val_string (Some s) = s"

text \<open>The truth value of \<^verbatim>\<open>cityId\<close> in \<^verbatim>\<open>if (cityId)\<close> and \<^verbatim>\<open>!$(this).val()\<close>.\<close>

fun truthy :: "city_value \<Rightarrow> bool" where
  "truthy None = False"
| "truthy (Some s) = (s \<noteq> [])"

text \<open>The white space of \<^verbatim>\<open>$.trim\<close> among the code units below 256.\<close>

definition is_space :: "char \<Rightarrow> bool" where
  "is_space c =
     (c = CHR 0x09 \<or> c = CHR 0x0A \<or> c = CHR 0x0B \<or> c = CHR 0x0C \<or> c = CHR 0x0D
      \<or> c = CHR 0x20 \<or> c = CHR 0xA0)"

text \<open>\<^verbatim>\<open>$.trim(v)\<close>: the empty string for \<^verbatim>\<open>null\<close>, else \<open>v\<close> without its leading and
  trailing white space.\<close>

fun trim :: "city_value \<Rightarrow> string" where
  "trim None = []"
| "trim (Some s) = rev (dropWhile is_space (rev (dropWhile is_space s)))"

subsection \<open>The page\<close>

datatype station_id = Departure_station | Arrival_station

record select_field =
  options :: "string list"
  disabled :: bool

record item =
  item_id :: jsval
  item_text :: jsval

record response =
  results :: "item list"

text \<open>A GET in flight: its URL and the \<^verbatim>\<open>stationSelect\<close> its callback holds.\<close>

record request =
  url :: string
  stationSelect :: station_id

record page =
  start_point :: city_value
  end_point :: city_value
  departure_station :: select_field
  arrival_station :: select_field
  pending :: "request list"

fun get_field :: "station_id \<Rightarrow> page \<Rightarrow> select_field" where
  "get_field Departure_station p = departure_station p"
| "get_field Arrival_station p = arrival_station p"

fun map_field :: "station_id \<Rightarrow> (select_field \<Rightarrow> select_field) \<Rightarrow> page \<Rightarrow> page" where
  "map_field Departure_station f p = p\<lparr>departure_station := f (departure_station p)\<rparr>"
| "map_field Arrival_station f p = p\<lparr>arrival_station := f (arrival_station p)\<rparr>"

text \<open>\<^verbatim>\<open>stationSelect.empty()\<close>, \<^verbatim>\<open>stationSelect.append(markup)\<close> and
  \<^verbatim>\<open>targetField.prop("disabled", b)\<close>. The \<open>options\<close> of a station field are the
  markup strings appended to it, in order; the option elements the browser builds from them
  are \<open>option_elements\<close> below.\<close>

definition empty_field :: "station_id \<Rightarrow> page \<Rightarrow> page" where
  "empty_field sid p = map_field sid (\<lambda>f. f\<lparr>options := []\<rparr>) p"

definition append_option :: "station_id \<Rightarrow> string \<Rightarrow> page \<Rightarrow> page" where
  "append_option sid markup p = map_field sid (\<lambda>f. f\<lparr>options := options f @ [markup]\<rparr>) p"

definition prop_disabled :: "station_id \<Rightarrow> bool \<Rightarrow> page \<Rightarrow> page" where
  "prop_disabled sid b p = map_field sid (\<lambda>f. f\<lparr>disabled := b\<rparr>) p"

subsection \<open>updateStations\<close>

text \<open>\<^verbatim>\<open>'<option value="' + item.id + '">' + item.text + '</option>'\<close>\<close>

definition option_markup :: "item \<Rightarrow> string" where
  \<open>option_markup it =
     (((''<option value="'' @ to_string (item_id it)) @ ''">'') @ to_string (item_text it))
       @ ''</option>''\<close>

text \<open>The callback of \<^verbatim>\<open>$.get\<close>: empty the field, then append one option for each entry of
  \<^verbatim>\<open>data.results\<close>.\<close>

definition on_success :: "station_id \<Rightarrow> response \<Rightarrow> page \<Rightarrow> page" where
  "on_success sid data p =
     fold (\<lambda>it q. append_option sid (option_markup it) q) (results data) (empty_field sid p)"

text \<open>\<^verbatim>\<open>updateStations(cityId, stationSelect)\<close> builds the URL and sends the GET; nothing else
  happens until the request completes.\<close>

definition updateStations :: "city_value \<Rightarrow> station_id \<Rightarrow> page \<Rightarrow> page" where
  "updateStations cityId sid p =
     p\<lparr>pending := pending p
        @ [\<lparr>url = ''/ajax/get_stations/?city_id='' @ val_string cityId, stationSelect = sid\<rparr>]\<rparr>"

subsection \<open>The option elements of a station field\<close>

text \<open>
  \<^verbatim>\<open>append\<close> hands its string to the HTML parser and inserts the elements that come out.
  The parser is modelled on the strings that are a sequence of
  \<^verbatim>\<open><option value="V">T</option>\<close> with \<open>V\<close> and \<open>T\<close> free of \<^verbatim>\<open><\<close>, \<^verbatim>\<open>>\<close>, \<^verbatim>\<open>&\<close>,
  the double quote, NUL and CR: each gives an option element with the value \<open>V\<close> and the text
  content \<open>T\<close>. What the parser builds from any other string is not modelled (\<open>None\<close>).
\<close>

record option_element =
  option_value :: string
  option_text :: string

definition html_plain :: "char \<Rightarrow> bool" where
  "html_plain c =
     (c \<noteq> CHR ''<'' \<and> c \<noteq> CHR ''>'' \<and> c \<noteq> CHR ''&'' \<and> c \<noteq> CHR 0x22
      \<and> c \<noteq> CHR 0x00 \<and> c \<noteq> CHR 0x0D)"

fun strip_prefix :: "string \<Rightarrow> string \<Rightarrow> string option" where
  "strip_prefix [] s = Some s"
| "strip_prefix (c # cs) [] = None"
| "strip_prefix (c # cs) (d # ds) = (if c = d then strip_prefix cs ds else None)"

function parse_options :: "string \<Rightarrow> option_element list option" where
  \<open>parse_options s =
     (if s = [] then Some []
      else case strip_prefix ''<option value="'' s of
        None \<Rightarrow> None
      | Some r1 \<Rightarrow>
          (let v = takeWhile html_plain r1 in
           case strip_prefix ''">'' (dropWhile html_plain r1) of
             None \<Rightarrow> None
           | Some r2 \<Rightarrow>
               (let t = takeWhile html_plain r2 in
                case strip_prefix ''</option>'' (dropWhile html_plain r2) of
                  None \<Rightarrow> None
                | Some r3 \<Rightarrow>
                    map_option ((#) \<lparr>option_value = v, option_text = t\<rparr>) (parse_options r3))))\<close>
  by pat_completeness auto
termination
proof (relation "measure length", goal_cases)
  case 1
  show ?case by simp
next
  case (2 s r1 v r2 t r3)
  have strip: "strip_prefix p x = Some r \<Longrightarrow> length r \<le> length x" for p x r
    by (induction p x rule: strip_prefix.induct) (auto split: if_splits)
  have drop: "length (dropWhile html_plain x) \<le> length x" for x
    by (rule length_dropWhile_le)
  from 2 obtain c s' where s: "s = c # s'" by (cases s) auto
  with 2 have "strip_prefix ''option value=\"'' s' = Some r1" by (auto split: if_splits)
  then have "length r1 \<le> length s'" by (rule strip)
  moreover have "length r2 \<le> length (dropWhile html_plain r1)" using 2 strip by blast
  moreover have "length r3 \<le> length (dropWhile html_plain r2)" using 2 strip by blast
  ultimately have "length r3 \<le> length s'"
    using drop [of r1] drop [of r2] by linarith
  then show ?case by (simp add: s)
qed

declare parse_options.simps [simp del]

text \<open>Each appended string is parsed on its own; the elements of the field are those of all
  its strings, in order.\<close>

fun parse_all :: "string list \<Rightarrow> option_element list option" where
  "parse_all [] = Some []"
| "parse_all (m # ms) =
     (case parse_options m of
        None \<Rightarrow> None
      | Some es \<Rightarrow> map_option ((@) es) (parse_all ms))"

definition option_elements :: "select_field \<Rightarrow> option_element list option" where
  "option_elements f = parse_all (options f)"

subsection \<open>Page load\<close>

text \<open>The body of the \<^verbatim>\<open>$(document).ready\<close> function after the handlers are registered.\<close>

definition ready :: "page \<Rightarrow> page" where
  "ready p =
     (let startCityId = start_point p;
          endCityId = end_point p;
          p1 = (if truthy startCityId then updateStations startCityId Departure_station p else p);
          p2 = (if truthy endCityId then updateStations endCityId Arrival_station p1 else p1);
          p3 = (if trim (start_point p2) = [] then prop_disabled Departure_station True p2 else p2);
          p4 = (if trim (end_point p3) = [] then prop_disabled Arrival_station True p3 else p3)
      in p4)"

subsection \<open>Events\<close>

text \<open>
  A change event on a city field carries the value the field now holds. Two handlers are
  registered on each city field and run in the order of registration: the one that calls
  \<^verbatim>\<open>updateStations\<close>, then the one that sets \<^verbatim>\<open>disabled\<close>.
\<close>

definition change_start :: "city_value \<Rightarrow> page \<Rightarrow> page" where
  "change_start v p =
     (let p0 = p\<lparr>start_point := v\<rparr>;
          p1 = updateStations (start_point p0) Departure_station p0
      in prop_disabled Departure_station (\<not> truthy (start_point p1)) p1)"

definition change_end :: "city_value \<Rightarrow> page \<Rightarrow> page" where
  "change_end v p =
     (let p0 = p\<lparr>end_point := v\<rparr>;
          p1 = updateStations (end_point p0) Arrival_station p0
      in prop_disabled Arrival_station (\<not> truthy (end_point p1)) p1)"

text \<open>
  \<open>Success i data\<close>: the \<open>i\<close>-th request in flight completes with \<open>data\<close> and its callback
  runs. \<open>Failure i\<close>: it fails, and no callback runs. An index with no request does nothing.
\<close>

datatype event =
  Change_start city_value
| Change_end city_value
| Success nat response
| Failure nat

definition remove_nth :: "nat \<Rightarrow> 'a list \<Rightarrow> 'a list" where
  "remove_nth i xs = take i xs @ drop (Suc i) xs"

fun step :: "event \<Rightarrow> page \<Rightarrow> page" where
  "step (Change_start v) p = change_start v p"
| "step (Change_end v) p = change_end v p"
| "step (Success i data) p =
     (if i < length (pending p)
      then on_success (stationSelect (pending p ! i)) data
             (p\<lparr>pending := remove_nth i (pending p)\<rparr>)
      else p)"
| "step (Failure i) p =
     (if i < length (pending p) then p\<lparr>pending := remove_nth i (pending p)\<rparr> else p)"

definition run :: "event list \<Rightarrow> page \<Rightarrow> page" where
  "run es p = fold step es p"

subsection \<open>Example pages\<close>

text \<open>A page as it may be rendered: the two city values given, both station fields enabled
  and holding one option each, no request in flight.\<close>

definition rendered_page :: "city_value \<Rightarrow> city_value \<Rightarrow> page" where
  \<open>rendered_page s e =
     \<lparr>start_point = s, end_point = e,
      departure_station = \<lparr>options = [''<option value="9">Old</option>''], disabled = False\<rparr>,
      arrival_station = \<lparr>options = [''<option value="8">Stale</option>''], disabled = False\<rparr>,
      pending = []\<rparr>\<close>

text \<open>The response \<^verbatim>\<open>{results: [{id: 1, text: "A"}, {id: 2, text: "B"}]}\<close>.\<close>

lift_definition num_1 :: safe_int is 1
  by simp

lift_definition num_2 :: safe_int is 2
  by simp

lift_definition num_120 :: safe_int is 120
  by simp

lift_definition num_minus_7 :: safe_int is "- 7"
  by simp

definition response_AB :: response where
  "response_AB =
     \<lparr>results = [\<lparr>item_id = JNum num_1, item_text = JStr ''A''\<rparr>,
                 \<lparr>item_id = JNum num_2, item_text = JStr ''B''\<rparr>]\<rparr>"

text \<open>A response with one entry, whose text holds markup:
  \<^verbatim>\<open>{results: [{id: 1, text: 'A</option><option value="9">B'}]}\<close>.\<close>

definition response_markup :: response where
  \<open>response_markup =
     \<lparr>results = [\<lparr>item_id = JNum num_1, item_text = JStr ''A</option><option value="9">B''\<rparr>]\<rparr>\<close>

subsection \<open>What each operation changes\<close>

lemma get_map_same: "get_field sid (map_field sid f p) = f (get_field sid p)"
  by (cases sid) simp_all

lemma get_map_other: "sid' \<noteq> sid \<Longrightarrow> get_field sid' (map_field sid f p) = get_field sid' p"
  by (cases sid; cases sid') simp_all

lemma map_field_frame:
  "pending (map_field sid f p) = pending p"
  "start_point (map_field sid f p) = start_point p"
  "end_point (map_field sid f p) = end_point p"
  by (cases sid; simp)+

lemma fold_append_frame:
  "pending (fold (\<lambda>it q. append_option sid (option_markup it) q) rs p) = pending p"
  "start_point (fold (\<lambda>it q. append_option sid (option_markup it) q) rs p) = start_point p"
  "end_point (fold (\<lambda>it q. append_option sid (option_markup it) q) rs p) = end_point p"
  by (induction rs arbitrary: p; simp add: append_option_def map_field_frame)+

lemma fold_append_options:
  "options (get_field sid (fold (\<lambda>it q. append_option sid (option_markup it) q) rs p))
     = options (get_field sid p) @ map option_markup rs"
  by (induction rs arbitrary: p) (simp_all add: append_option_def get_map_same)

lemma fold_append_disabled:
  "disabled (get_field sid' (fold (\<lambda>it q. append_option sid (option_markup it) q) rs p))
     = disabled (get_field sid' p)"
  by (induction rs arbitrary: p; cases "sid' = sid")
     (simp_all add: append_option_def get_map_same get_map_other)

lemma fold_append_other:
  "sid' \<noteq> sid \<Longrightarrow>
   get_field sid' (fold (\<lambda>it q. append_option sid (option_markup it) q) rs p) = get_field sid' p"
  by (induction rs arbitrary: p) (simp_all add: append_option_def get_map_other)

lemma on_success_options:
  "options (get_field sid (on_success sid d p)) = map option_markup (results d)"
  by (simp add: on_success_def fold_append_options empty_field_def get_map_same)

lemma on_success_disabled:
  "disabled (get_field sid' (on_success sid d p)) = disabled (get_field sid' p)"
  by (cases "sid' = sid")
     (simp_all add: on_success_def fold_append_disabled empty_field_def get_map_same get_map_other)

lemma on_success_other:
  "sid' \<noteq> sid \<Longrightarrow> get_field sid' (on_success sid d p) = get_field sid' p"
  by (simp add: on_success_def fold_append_other empty_field_def get_map_other)

lemma on_success_frame:
  "pending (on_success sid d p) = pending p"
  "start_point (on_success sid d p) = start_point p"
  "end_point (on_success sid d p) = end_point p"
  by (simp_all add: on_success_def fold_append_frame empty_field_def map_field_frame)

lemma remove_nth_append_length: "remove_nth (length xs) (xs @ y # ys) = xs @ ys"
  by (simp add: remove_nth_def)

lemma remove_nth_append_Suc: "remove_nth (Suc (length xs)) (xs @ y # z # ys) = xs @ y # ys"
  by (simp add: remove_nth_def)

lemma change_start_fields:
  "departure_station (change_start v p) = (departure_station p)\<lparr>disabled := \<not> truthy v\<rparr>"
  "arrival_station (change_start v p) = arrival_station p"
  "pending (change_start v p) = pending p
     @ [\<lparr>url = ''/ajax/get_stations/?city_id='' @ val_string v, stationSelect = Departure_station\<rparr>]"
  "start_point (change_start v p) = v"
  "end_point (change_start v p) = end_point p"
  by (simp_all add: change_start_def updateStations_def prop_disabled_def Let_def)

lemma change_end_fields:
  "arrival_station (change_end v p) = (arrival_station p)\<lparr>disabled := \<not> truthy v\<rparr>"
  "departure_station (change_end v p) = departure_station p"
  "pending (change_end v p) = pending p
     @ [\<lparr>url = ''/ajax/get_stations/?city_id='' @ val_string v, stationSelect = Arrival_station\<rparr>]"
  "end_point (change_end v p) = v"
  "start_point (change_end v p) = start_point p"
  by (simp_all add: change_end_def updateStations_def prop_disabled_def Let_def)

lemma ready_fields:
  "pending (ready p) = pending p
     @ (if truthy (start_point p)
        then [\<lparr>url = ''/ajax/get_stations/?city_id='' @ val_string (start_point p),
               stationSelect = Departure_station\<rparr>] else [])
     @ (if truthy (end_point p)
        then [\<lparr>url = ''/ajax/get_stations/?city_id='' @ val_string (end_point p),
               stationSelect = Arrival_station\<rparr>] else [])"
  "options (departure_station (ready p)) = options (departure_station p)"
  "options (arrival_station (ready p)) = options (arrival_station p)"
  "disabled (departure_station (ready p)) = (trim (start_point p) = [] \<or> disabled (departure_station p))"
  "disabled (arrival_station (ready p)) = (trim (end_point p) = [] \<or> disabled (arrival_station p))"
  "start_point (ready p) = start_point p"
  "end_point (ready p) = end_point p"
  by (simp_all add: ready_def updateStations_def prop_disabled_def Let_def)

subsection \<open>Events and requests\<close>

lemma step_success_options:
  assumes "i < length (pending p)"
  shows "options (get_field (stationSelect (pending p ! i)) (step (Success i d) p))
           = map option_markup (results d)"
  using assms by (simp add: on_success_options)

lemma step_success_disabled:
  "disabled (departure_station (step (Success i d) p)) = disabled (departure_station p)"
  "disabled (arrival_station (step (Success i d) p)) = disabled (arrival_station p)"
  using on_success_disabled [of Departure_station "stationSelect (pending p ! i)" d]
        on_success_disabled [of Arrival_station "stationSelect (pending p ! i)" d]
  by simp_all

lemma step_failure_fields:
  "departure_station (step (Failure i) p) = departure_station p"
  "arrival_station (step (Failure i) p) = arrival_station p"
  "start_point (step (Failure i) p) = start_point p"
  "end_point (step (Failure i) p) = end_point p"
  by simp_all

lemma step_success_pending:
  "i < length (pending p) \<Longrightarrow> pending (step (Success i d) p) = remove_nth i (pending p)"
  by (simp add: on_success_frame)

lemma step_success_other:
  assumes "i < length (pending p)"
  shows "stationSelect (pending p ! i) = Departure_station \<Longrightarrow>
           arrival_station (step (Success i d) p) = arrival_station p"
    and "stationSelect (pending p ! i) = Arrival_station \<Longrightarrow>
           departure_station (step (Success i d) p) = departure_station p"
  using assms on_success_other [of Arrival_station Departure_station d]
    on_success_other [of Departure_station Arrival_station d]
  by simp_all

lemma not_truthy_trim: "\<not> truthy v \<Longrightarrow> trim v = []"
  by (cases v) simp_all

lemma ready_start_request:
  assumes "truthy (start_point p)"
  shows "length (pending p) < length (pending (ready p))"
    and "pending (ready p) ! length (pending p)
           = \<lparr>url = ''/ajax/get_stations/?city_id='' @ val_string (start_point p),
              stationSelect = Departure_station\<rparr>"
  using assms by (simp_all add: ready_fields nth_append)

lemma ready_end_request:
  assumes "truthy (end_point p)"
  shows "length (pending (ready p)) - 1 < length (pending (ready p))"
    and "pending (ready p) ! (length (pending (ready p)) - 1)
           = \<lparr>url = ''/ajax/get_stations/?city_id='' @ val_string (end_point p),
              stationSelect = Arrival_station\<rparr>"
    and "length (pending (ready p)) - 1
           = length (pending p) + (if truthy (start_point p) then 1 else 0)"
  using assms by (simp_all add: ready_fields nth_append)

lemma ready_start_success:
  assumes "truthy (start_point p)"
  shows "options (departure_station (step (Success (length (pending p)) d) (ready p)))
           = map option_markup (results d)"
  using step_success_options [OF ready_start_request(1) [OF assms], of d]
  by (simp only: ready_start_request(2) [OF assms] request.simps get_field.simps)

lemma ready_end_success:
  assumes "truthy (end_point p)"
  shows "options (arrival_station (step (Success (length (pending (ready p)) - 1) d) (ready p)))
           = map option_markup (results d)"
  using step_success_options [OF ready_end_request(1) [OF assms], of d]
  by (simp only: ready_end_request(2) [OF assms] request.simps get_field.simps)

lemma two_requests_in_order:
  assumes "pending q = xs @ [r1, r2]"
  shows "options (get_field (stationSelect r2)
            (step (Success (length xs) d2) (step (Success (length xs) d1) q)))
           = map option_markup (results d2)"
proof -
  let ?q1 = "step (Success (length xs) d1) q"
  have "pending ?q1 = remove_nth (length xs) (xs @ [r1, r2])"
    using assms step_success_pending [of "length xs" q d1] by simp
  then have pend: "pending ?q1 = xs @ [r2]"
    by (simp add: remove_nth_append_length)
  then have "length xs < length (pending ?q1)" and "pending ?q1 ! length xs = r2"
    by simp_all
  then show ?thesis
    using step_success_options [of "length xs" ?q1 d2] by simp
qed

lemma two_requests_swapped:
  assumes "pending q = xs @ [r1, r2]"
  shows "options (get_field (stationSelect r1)
            (step (Success (length xs) d1) (step (Success (Suc (length xs)) d2) q)))
           = map option_markup (results d1)"
proof -
  let ?q1 = "step (Success (Suc (length xs)) d2) q"
  have "pending ?q1 = remove_nth (Suc (length xs)) (xs @ [r1, r2])"
    using assms step_success_pending [of "Suc (length xs)" q d2] by simp
  then have pend: "pending ?q1 = xs @ [r1]"
    by (simp add: remove_nth_append_Suc)
  then have "length xs < length (pending ?q1)" and "pending ?q1 ! length xs = r1"
    by simp_all
  then show ?thesis
    using step_success_options [of "length xs" ?q1 d1] by simp
qed

lemma change_start_twice:
  "pending (step (Change_start v2) (step (Change_start v1) p))
     = pending p
       @ [\<lparr>url = ''/ajax/get_stations/?city_id='' @ val_string v1, stationSelect = Departure_station\<rparr>,
          \<lparr>url = ''/ajax/get_stations/?city_id='' @ val_string v2, stationSelect = Departure_station\<rparr>]"
  by (simp add: change_start_fields)

lemma change_end_twice:
  "pending (step (Change_end v2) (step (Change_end v1) p))
     = pending p
       @ [\<lparr>url = ''/ajax/get_stations/?city_id='' @ val_string v1, stationSelect = Arrival_station\<rparr>,
          \<lparr>url = ''/ajax/get_stations/?city_id='' @ val_string v2, stationSelect = Arrival_station\<rparr>]"
  by (simp add: change_end_fields)

lemma change_then_success_other:
  "arrival_station (step (Success (length (pending p)) d) (step (Change_start v) p))
     = arrival_station p"
  "departure_station (step (Success (length (pending p)) d) (step (Change_end v) p))
     = departure_station p"
proof -
  let ?s = "step (Change_start v) p" and ?e = "step (Change_end v) p"
  have "length (pending p) < length (pending ?s)"
    and "stationSelect (pending ?s ! length (pending p)) = Departure_station"
    by (simp_all add: change_start_fields)
  then have "arrival_station (step (Success (length (pending p)) d) ?s) = arrival_station ?s"
    by (rule step_success_other)
  then show "arrival_station (step (Success (length (pending p)) d) ?s) = arrival_station p"
    by (simp add: change_start_fields del: step.simps(3))
  have "length (pending p) < length (pending ?e)"
    and "stationSelect (pending ?e ! length (pending p)) = Arrival_station"
    by (simp_all add: change_end_fields)
  then have "departure_station (step (Success (length (pending p)) d) ?e) = departure_station ?e"
    by (rule step_success_other)
  then show "departure_station (step (Success (length (pending p)) d) ?e) = departure_station p"
    by (simp add: change_end_fields del: step.simps(3))
qed

lemma run_Cons: "run (e # es) p = run es (step e p)" and run_Nil: "run [] p = p"
  by (simp_all add: run_def)

subsection \<open>The string of a value\<close>

lemma digit_char_code: "d < 10 \<Longrightarrow> (of_char (digit_char d) :: nat) = 48 + d"
proof -
  assume "d < 10"
  then have "d \<in> {0, 1, 2, 3, 4, 5, 6, 7, 8, 9}" by auto
  then show ?thesis by (auto simp add: digit_char_def)
qed

lemma digit_char_set: "d < 10 \<Longrightarrow> digit_char d \<in> set ''0123456789''"
  unfolding digit_char_def by (rule nth_mem) simp

lemma digit_char_zero: "d < 10 \<Longrightarrow> digit_char d = CHR ''0'' \<longleftrightarrow> d = 0"
proof -
  assume "d < 10"
  then have "d \<in> {0, 1, 2, 3, 4, 5, 6, 7, 8, 9}" by auto
  then show ?thesis by (auto simp add: digit_char_def)
qed

lemma digits_nonempty: "digits m \<noteq> []"
  by (subst digits.simps) simp

lemma digits_set: "set (digits m) \<subseteq> set ''0123456789''"
proof (induction m rule: digits.induct)
  case (1 n)
  show ?case
  proof (cases "n < 10")
    case True
    then show ?thesis
      using digit_char_set [of n] by (subst digits.simps) simp
  next
    case False
    have "n mod 10 < 10" by simp
    then have "digit_char (n mod 10) \<in> set ''0123456789''" by (rule digit_char_set)
    with False 1 show ?thesis
      by (subst digits.simps) simp
  qed
qed

lemma digits_hd: "0 < m \<Longrightarrow> hd (digits m) \<noteq> CHR ''0''"
proof (induction m rule: digits.induct)
  case (1 n)
  show ?case
  proof (cases "n < 10")
    case True
    with 1(2) show ?thesis
      by (subst digits.simps) (simp add: digit_char_zero)
  next
    case False
    then have "0 < n div 10" by simp
    with 1(1) False have "hd (digits (n div 10)) \<noteq> CHR ''0''" by simp
    with False show ?thesis
      by (subst digits.simps) (simp add: digits_nonempty)
  qed
qed

lemma digits_lead: "length (digits m) = 1 \<or> hd (digits m) \<noteq> CHR ''0''"
proof (cases "m = 0")
  case True
  then show ?thesis by (subst digits.simps) simp
next
  case False
  then show ?thesis by (simp add: digits_hd)
qed

lemma digits_value: "foldl (\<lambda>a c. 10 * a + (of_char c - 48)) 0 (digits m) = m"
proof (induction m rule: digits.induct)
  case (1 n)
  show ?case
  proof (cases "n < 10")
    case True
    then show ?thesis
      by (subst digits.simps) (simp add: digit_char_code)
  next
    case False
    have "n mod 10 < 10" by simp
    then have "(of_char (digit_char (n mod 10)) :: nat) = 48 + n mod 10"
      by (rule digit_char_code)
    with False 1 show ?thesis
      by (subst digits.simps) simp
  qed
qed

lemma option_markup_concat:
  \<open>option_markup = (\<lambda>it. ''<option value="'' @ to_string (item_id it) @ ''">''
                   @ to_string (item_text it) @ ''</option>'')\<close>
  by (rule ext) (simp add: option_markup_def)

subsection \<open>Parsing the appended markup\<close>

lemma strip_prefix_append: "strip_prefix pre (pre @ s) = Some s"
  by (induction pre) simp_all

lemma takeWhile_plain:
  "list_all html_plain v \<Longrightarrow> \<not> html_plain c \<Longrightarrow> takeWhile html_plain (v @ c # r) = v"
  by (simp add: list_all_iff takeWhile_append2)

lemma dropWhile_plain:
  "list_all html_plain v \<Longrightarrow> \<not> html_plain c \<Longrightarrow> dropWhile html_plain (v @ c # r) = c # r"
  by (simp add: list_all_iff dropWhile_append2)

lemma parse_options_one:
  assumes "list_all html_plain v" and "list_all html_plain t"
  shows \<open>parse_options (''<option value="'' @ v @ ''">'' @ t @ ''</option>'' @ rest)
           = map_option ((#) \<lparr>option_value = v, option_text = t\<rparr>) (parse_options rest)\<close>
proof -
  have q: "\<not> html_plain (CHR 0x22)" and l: "\<not> html_plain CHR ''<''"
    by (simp_all add: html_plain_def)
  have v: \<open>takeWhile html_plain (v @ ''">'' @ t @ ''</option>'' @ rest) = v\<close>
    \<open>dropWhile html_plain (v @ ''">'' @ t @ ''</option>'' @ rest) = ''">'' @ t @ ''</option>'' @ rest\<close>
    using takeWhile_plain [OF assms(1) q] dropWhile_plain [OF assms(1) q] by simp_all
  have t: \<open>takeWhile html_plain (t @ ''</option>'' @ rest) = t\<close>
    \<open>dropWhile html_plain (t @ ''</option>'' @ rest) = ''</option>'' @ rest\<close>
    using takeWhile_plain [OF assms(2) l] dropWhile_plain [OF assms(2) l] by simp_all
  show ?thesis
    by (subst parse_options.simps)
       (simp only: strip_prefix_append v t Let_def option.case append_is_Nil_conv, simp)
qed

lemma parse_option_markup:
  assumes "list_all html_plain (to_string (item_id it))"
    and "list_all html_plain (to_string (item_text it))"
  shows "parse_options (option_markup it)
           = Some [\<lparr>option_value = to_string (item_id it), option_text = to_string (item_text it)\<rparr>]"
proof -
  have "parse_options [] = Some []"
    by (subst parse_options.simps) simp
  then show ?thesis
    using parse_options_one [OF assms, of "[]"] by (simp add: option_markup_def)
qed

lemma parse_all_markup:
  assumes "\<forall>it \<in> set rs. list_all html_plain (to_string (item_id it))
                         \<and> list_all html_plain (to_string (item_text it))"
  shows "parse_all (map option_markup rs)
           = Some (map (\<lambda>it. \<lparr>option_value = to_string (item_id it),
                             option_text = to_string (item_text it)\<rparr>) rs)"
  using assms by (induction rs) (simp_all add: parse_option_markup)

lemma step_success_elements:
  assumes "i < length (pending p)"
    and "\<forall>it \<in> set (results d). list_all html_plain (to_string (item_id it))
                         \<and> list_all html_plain (to_string (item_text it))"
  shows "option_elements (get_field (stationSelect (pending p ! i)) (step (Success i d) p))
           = Some (map (\<lambda>it. \<lparr>option_value = to_string (item_id it),
                             option_text = to_string (item_text it)\<rparr>) (results d))"
  unfolding option_elements_def step_success_options [OF assms(1)]
  using assms(2) by (rule parse_all_markup)

section \<open>The claims\<close>

subsection \<open>C1: when a station field is enabled\<close>

text \<open>
  C1, as stated: the bound station field is enabled if and only if the trimmed city value is
  non-empty, after every change event and after page load. The change handler tests the
  value itself, not its trimmed form: after a change of \<^verbatim>\<open>start_point\<close> to one blank,
  \<^verbatim>\<open>departure_station\<close> is enabled although the trimmed value is empty. And the load-time
  code only ever disables: a station field rendered disabled stays disabled at page load
  although \<^verbatim>\<open>start_point\<close> holds \<^verbatim>\<open>"5"\<close>.
\<close>

theorem C1_counterexample:
  "\<not> ((\<not> disabled (departure_station
            (step (Change_start (Some '' '')) (rendered_page (Some ''5'') None))))
        \<longleftrightarrow> trim (Some '' '') \<noteq> [])
   \<and> \<not> ((\<not> disabled (departure_station
            (ready ((rendered_page (Some ''5'') None)
                      \<lparr>departure_station := \<lparr>options = [], disabled = True\<rparr>\<rparr>))))
        \<longleftrightarrow> trim (Some ''5'') \<noteq> [])"
  by (simp add: change_start_fields ready_fields rendered_page_def is_space_def)

text \<open>
  C1, amended: after a change event with value \<open>v\<close> the bound station field is enabled if
  and only if \<open>v\<close> is a non-empty string (not trimmed); after page load the bound station
  field is disabled if the trimmed city value is empty, and keeps the state it had on the
  rendered page otherwise.
\<close>

theorem C1_enabled_policy:
  "(\<not> disabled (departure_station (step (Change_start v) p))) = truthy v
   \<and> (\<not> disabled (arrival_station (step (Change_end v) p))) = truthy v
   \<and> disabled (departure_station (ready p))
       = (trim (start_point p) = [] \<or> disabled (departure_station p))
   \<and> disabled (arrival_station (ready p))
       = (trim (end_point p) = [] \<or> disabled (arrival_station p))"
  by (simp add: change_start_fields change_end_fields ready_fields)

subsection \<open>C2: a change to the empty value\<close>

text \<open>
  C2, as stated: a change event with an empty value disables the bound station field and
  performs no fetch. The handler calls \<^verbatim>\<open>updateStations\<close> whatever the value is: changing
  \<^verbatim>\<open>start_point\<close> from \<^verbatim>\<open>"5"\<close> to \<^verbatim>\<open>""\<close> sends a GET with an empty \<^verbatim>\<open>city_id\<close>.
\<close>

theorem C2_counterexample:
  "pending (step (Change_start (Some [])) (rendered_page (Some ''5'') None))
     = [\<lparr>url = ''/ajax/get_stations/?city_id='', stationSelect = Departure_station\<rparr>]
   \<and> pending (step (Change_start (Some [])) (rendered_page (Some ''5'') None))
       \<noteq> pending (rendered_page (Some ''5'') None)"
  by (simp add: change_start_fields rendered_page_def)

text \<open>
  C2, amended: a change event with the empty value disables the bound station field and
  sends one GET to \<^verbatim>\<open>/ajax/get_stations/?city_id=\<close> whose callback is bound to that station
  field.
\<close>

theorem C2_empty_change:
  "disabled (departure_station (step (Change_start (Some [])) p))
   \<and> pending (step (Change_start (Some [])) p)
       = pending p @ [\<lparr>url = ''/ajax/get_stations/?city_id='', stationSelect = Departure_station\<rparr>]
   \<and> disabled (arrival_station (step (Change_end (Some [])) p))
   \<and> pending (step (Change_end (Some [])) p)
       = pending p @ [\<lparr>url = ''/ajax/get_stations/?city_id='', stationSelect = Arrival_station\<rparr>]"
  by (simp add: change_start_fields change_end_fields)

subsection \<open>C3: repopulating a station field\<close>

text \<open>
  C3, as stated: after a successful fetch with the result list \<open>rs\<close> the bound station field
  holds exactly one option for each entry of \<open>rs\<close>, with the entry's id as value and its
  text as label. The markup is built by plain concatenation and then parsed: the response
  \<^verbatim>\<open>{results: [{id: 1, text: 'A</option><option value="9">B'}]}\<close> has one entry and leaves
  two option elements in \<^verbatim>\<open>departure_station\<close>, the second with the value \<^verbatim>\<open>9\<close>.
\<close>

theorem C3_counterexample:
  \<open>length (results response_markup) = 1
   \<and> option_elements (departure_station
        (step (Success 0 response_markup)
          (step (Change_start (Some ''5'')) (rendered_page None None))))
      = Some [\<lparr>option_value = ''1'', option_text = ''A''\<rparr>,
              \<lparr>option_value = ''9'', option_text = ''B''\<rparr>]\<close>
proof -
  let ?p = "step (Change_start (Some ''5'')) (rendered_page None None)"
  have pend: "pending ?p
      = [\<lparr>url = ''/ajax/get_stations/?city_id=5'', stationSelect = Departure_station\<rparr>]"
    by (simp add: change_start_fields rendered_page_def)
  have "options (get_field (stationSelect (pending ?p ! 0)) (step (Success 0 response_markup) ?p))
          = map option_markup (results response_markup)"
    by (rule step_success_options) (simp add: change_start_fields)
  then have "options (departure_station (step (Success 0 response_markup) ?p))
          = [''<option value=\"1\">A</option><option value=\"9\">B</option>'']"
    unfolding pend
    by (simp add: response_markup_def option_markup_def num_1.rep_eq digits.simps digit_char_def
          del: step.simps)
  then show ?thesis
    by (simp add: option_elements_def response_markup_def parse_options.simps html_plain_def
          del: step.simps)
qed

text \<open>
  C3, amended: when a request completes with the result list \<open>rs\<close>, the station field its
  callback is bound to loses every option it had and gets one markup string
  \<^verbatim>\<open><option value="ID">TEXT</option>\<close> appended for each entry of \<open>rs\<close>, in the order of
  \<open>rs\<close>. When the strings of every id and text are free of \<^verbatim>\<open><\<close>, \<^verbatim>\<open>>\<close>, \<^verbatim>\<open>&\<close>, the
  double quote, NUL and CR, the field then holds exactly one option element for each entry,
  in order, with the id as its value and the text as its text content. With an empty \<open>rs\<close>
  the field ends with no option. The string of an id or text is the value itself for a
  string, the decimal numeral for a number, and the usual names for the other values.
\<close>

theorem C3_repopulate:
  \<open>i < length (pending p) \<Longrightarrow>
   options (get_field (stationSelect (pending p ! i)) (step (Success i d) p))
     = map (\<lambda>it. ''<option value="'' @ to_string (item_id it) @ ''">''
                   @ to_string (item_text it) @ ''</option>'') (results d)
   \<and> ((\<forall>it \<in> set (results d). list_all html_plain (to_string (item_id it))
                               \<and> list_all html_plain (to_string (item_text it))) \<longrightarrow>
        option_elements (get_field (stationSelect (pending p ! i)) (step (Success i d) p))
          = Some (map (\<lambda>it. \<lparr>option_value = to_string (item_id it),
                            option_text = to_string (item_text it)\<rparr>) (results d)))
   \<and> options (get_field (stationSelect (pending p ! i)) (step (Success i \<lparr>results = []\<rparr>) p)) = []
   \<and> option_elements (get_field (stationSelect (pending p ! i))
        (step (Success i \<lparr>results = []\<rparr>) p)) = Some []
   \<and> html_plain c
       = (c \<notin> set [CHR ''<'', CHR ''>'', CHR ''&'', CHR 0x22, CHR 0x00, CHR 0x0D])
   \<and> to_string (JStr a) = a
   \<and> to_string JNull = ''null'' \<and> to_string JUndefined = ''undefined''
   \<and> to_string (JBool True) = ''true'' \<and> to_string (JBool False) = ''false''
   \<and> to_string JObj = ''[object Object]''
   \<and> (0 \<le> Rep_safe_int n \<longrightarrow>
        to_string (JNum n) \<noteq> []
        \<and> set (to_string (JNum n)) \<subseteq> set ''0123456789''
        \<and> (length (to_string (JNum n)) = 1 \<or> hd (to_string (JNum n)) \<noteq> CHR ''0'')
        \<and> foldl (\<lambda>a c. 10 * a + (of_char c - 48)) 0 (to_string (JNum n))
            = nat (Rep_safe_int n))
   \<and> (Rep_safe_int n < 0 \<longrightarrow>
        hd (to_string (JNum n)) = CHR ''-''
        \<and> tl (to_string (JNum n)) \<noteq> []
        \<and> set (tl (to_string (JNum n))) \<subseteq> set ''0123456789''
        \<and> hd (tl (to_string (JNum n))) \<noteq> CHR ''0''
        \<and> foldl (\<lambda>a c. 10 * a + (of_char c - 48)) 0 (tl (to_string (JNum n)))
            = nat (- Rep_safe_int n))
   \<and> to_string (JNum num_120) = ''120'' \<and> to_string (JNum num_minus_7) = ''-7''
   \<and> to_string (JArr []) = []
   \<and> to_string (JArr [JNull]) = [] \<and> to_string (JArr [JUndefined]) = []
   \<and> (x \<noteq> JNull \<and> x \<noteq> JUndefined \<longrightarrow> to_string (JArr [x]) = to_string x)
   \<and> to_string (JArr (x # y # ys)) = to_string (JArr [x]) @ '','' @ to_string (JArr (y # ys))\<close>
proof -
  assume i: "i < length (pending p)"
  let ?sid = "stationSelect (pending p ! i)"
  have opts: "options (get_field ?sid (step (Success i d') p)) = map option_markup (results d')"
    for d'
    using i by (rule step_success_options)
  have elems: "(\<forall>it \<in> set (results d). list_all html_plain (to_string (item_id it))
                               \<and> list_all html_plain (to_string (item_text it))) \<longrightarrow>
        option_elements (get_field ?sid (step (Success i d) p))
          = Some (map (\<lambda>it. \<lparr>option_value = to_string (item_id it),
                            option_text = to_string (item_text it)\<rparr>) (results d))"
    using step_success_elements [OF i] by blast
  have none: "option_elements (get_field ?sid (step (Success i \<lparr>results = []\<rparr>) p)) = Some []"
    unfolding option_elements_def opts by simp
  have markup: "options (get_field ?sid (step (Success i d) p))
     = map (\<lambda>it. ''<option value=\"'' @ to_string (item_id it) @ ''\">''
                   @ to_string (item_text it) @ ''</option>'') (results d)"
    unfolding opts option_markup_concat ..
  have empty: "options (get_field ?sid (step (Success i \<lparr>results = []\<rparr>) p)) = []"
    unfolding opts by simp
  have plain_chars: "html_plain c
       = (c \<notin> set [CHR ''<'', CHR ''>'', CHR ''&'', CHR 0x22, CHR 0x00, CHR 0x0D])"
    by (auto simp add: html_plain_def)
  have scalars: "to_string (JStr a) = a"
    "to_string JNull = ''null''" "to_string JUndefined = ''undefined''"
    "to_string (JBool True) = ''true''" "to_string (JBool False) = ''false''"
    "to_string JObj = ''[object Object]''"
    by simp_all
  have nonneg: "0 \<le> Rep_safe_int n \<longrightarrow>
        to_string (JNum n) \<noteq> []
        \<and> set (to_string (JNum n)) \<subseteq> set ''0123456789''
        \<and> (length (to_string (JNum n)) = 1 \<or> hd (to_string (JNum n)) \<noteq> CHR ''0'')
        \<and> foldl (\<lambda>a c. 10 * a + (of_char c - 48)) 0 (to_string (JNum n))
            = nat (Rep_safe_int n)"
  proof
    assume "0 \<le> Rep_safe_int n"
    then have s: "to_string (JNum n) = digits (nat (Rep_safe_int n))" by simp
    show "to_string (JNum n) \<noteq> []
        \<and> set (to_string (JNum n)) \<subseteq> set ''0123456789''
        \<and> (length (to_string (JNum n)) = 1 \<or> hd (to_string (JNum n)) \<noteq> CHR ''0'')
        \<and> foldl (\<lambda>a c. 10 * a + (of_char c - 48)) 0 (to_string (JNum n))
            = nat (Rep_safe_int n)"
      unfolding s using digits_nonempty digits_set digits_lead digits_value by blast
  qed
  have negative: "Rep_safe_int n < 0 \<longrightarrow>
        hd (to_string (JNum n)) = CHR ''-''
        \<and> tl (to_string (JNum n)) \<noteq> []
        \<and> set (tl (to_string (JNum n))) \<subseteq> set ''0123456789''
        \<and> hd (tl (to_string (JNum n))) \<noteq> CHR ''0''
        \<and> foldl (\<lambda>a c. 10 * a + (of_char c - 48)) 0 (tl (to_string (JNum n)))
            = nat (- Rep_safe_int n)"
  proof
    assume neg: "Rep_safe_int n < 0"
    then have s: "to_string (JNum n) = CHR ''-'' # digits (nat (- Rep_safe_int n))" by simp
    from neg have "0 < nat (- Rep_safe_int n)" by simp
    then have "hd (digits (nat (- Rep_safe_int n))) \<noteq> CHR ''0''" by (rule digits_hd)
    then show "hd (to_string (JNum n)) = CHR ''-''
        \<and> tl (to_string (JNum n)) \<noteq> []
        \<and> set (tl (to_string (JNum n))) \<subseteq> set ''0123456789''
        \<and> hd (tl (to_string (JNum n))) \<noteq> CHR ''0''
        \<and> foldl (\<lambda>a c. 10 * a + (of_char c - 48)) 0 (tl (to_string (JNum n)))
            = nat (- Rep_safe_int n)"
      unfolding s list.sel using digits_nonempty digits_set digits_value by blast
  qed
  have numerals: "to_string (JNum num_120) = ''120''" "to_string (JNum num_minus_7) = ''-7''"
    by (simp_all add: num_120.rep_eq num_minus_7.rep_eq digits.simps digit_char_def)
  have arrays: "to_string (JArr []) = []"
    "to_string (JArr [JNull]) = []" "to_string (JArr [JUndefined]) = []"
    by simp_all
  have single: "x \<noteq> JNull \<and> x \<noteq> JUndefined \<longrightarrow> to_string (JArr [x]) = to_string x"
    by (cases x) simp_all
  have joined:
    "to_string (JArr (x # y # ys)) = to_string (JArr [x]) @ '','' @ to_string (JArr (y # ys))"
    by (cases x) simp_all
  show ?thesis
    using markup elems empty none scalars plain_chars nonneg negative numerals arrays single joined
    by blast
qed

text \<open>The same at a concrete page, with the response
  \<^verbatim>\<open>{results: [{id: 1, text: "A"}, {id: 2, text: "B"}]}\<close>.\<close>

theorem C3_repopulate_witness:
  \<open>0 < length (pending (step (Change_start (Some ''5'')) (rendered_page None None)))
   \<and> list_all html_plain (to_string (JNum num_1)) \<and> list_all html_plain (to_string (JStr ''A''))
   \<and> list_all html_plain (to_string (JNum num_2)) \<and> list_all html_plain (to_string (JStr ''B''))
   \<and> options (departure_station
        (step (Success 0 response_AB) (step (Change_start (Some ''5'')) (rendered_page None None))))
      = [''<option value="1">A</option>'', ''<option value="2">B</option>'']
   \<and> option_elements (departure_station
        (step (Success 0 response_AB) (step (Change_start (Some ''5'')) (rendered_page None None))))
      = Some [\<lparr>option_value = ''1'', option_text = ''A''\<rparr>,
              \<lparr>option_value = ''2'', option_text = ''B''\<rparr>]
   \<and> options (departure_station
        (step (Success 0 \<lparr>results = []\<rparr>) (step (Change_start (Some ''5'')) (rendered_page None None))))
      = []
   \<and> 0 \<le> Rep_safe_int num_120
   \<and> foldl (\<lambda>a c. 10 * a + (of_char c - 48)) 0 (to_string (JNum num_120)) = (120 :: nat)
   \<and> Rep_safe_int num_minus_7 < 0
   \<and> foldl (\<lambda>a c. 10 * a + (of_char c - 48)) 0 (tl (to_string (JNum num_minus_7))) = (7 :: nat)
   \<and> JStr ''a'' \<noteq> JNull \<and> JStr ''a'' \<noteq> JUndefined
   \<and> to_string (JArr [JStr ''a'']) = ''a''\<close>
proof -
  let ?p = "step (Change_start (Some ''5'')) (rendered_page None None)"
  have pend: "pending ?p
      = [\<lparr>url = ''/ajax/get_stations/?city_id=5'', stationSelect = Departure_station\<rparr>]"
    by (simp add: change_start_fields rendered_page_def)
  have len: "0 < length (pending ?p)"
    by (simp add: change_start_fields)
  have plain: "\<forall>it \<in> set (results response_AB). list_all html_plain (to_string (item_id it))
                                       \<and> list_all html_plain (to_string (item_text it))"
    by (simp add: response_AB_def num_1.rep_eq num_2.rep_eq digits.simps digit_char_def
          html_plain_def)
  have reps: "Rep_safe_int num_120 = 120" "Rep_safe_int num_minus_7 = - 7"
    by (simp_all add: num_120.rep_eq num_minus_7.rep_eq)
  from C3_repopulate [OF len, where d = response_AB and n = num_120 and x = "JStr ''a''"]
    C3_repopulate [OF len, where d = response_AB and n = num_minus_7 and x = "JStr ''a''"]
    plain
  show ?thesis
    unfolding pend
    by (simp add: response_AB_def reps num_1.rep_eq num_2.rep_eq digits.simps digit_char_def
          html_plain_def del: step.simps)
qed

subsection \<open>C4: page load\<close>

text \<open>
  C4, as stated: at page load a non-empty city value has its stations fetched and the bound
  station field ends enabled. With a value of one blank the GET is sent and the station
  field ends disabled; and a station field that is rendered disabled stays disabled
  whatever the city value is.
\<close>

theorem C4_counterexample:
  "truthy (Some '' '')
   \<and> pending (ready (rendered_page (Some '' '') None))
       = [\<lparr>url = ''/ajax/get_stations/?city_id= '', stationSelect = Departure_station\<rparr>]
   \<and> disabled (departure_station
        (step (Success 0 response_AB) (ready (rendered_page (Some '' '') None))))
   \<and> disabled (departure_station
        (step (Success 0 response_AB)
          (ready ((rendered_page (Some ''5'') None)
                    \<lparr>departure_station := \<lparr>options = [], disabled = True\<rparr>\<rparr>))))"
  by (simp add: step_success_disabled ready_fields rendered_page_def is_space_def del: step.simps)

text \<open>
  C4, amended: at page load, for each pair, a GET with the city value is sent exactly when
  the value is a non-empty string, and when it succeeds the bound station field is
  repopulated with the response. The station field is disabled after page load exactly when
  the trimmed city value is empty or the field was already disabled, and the completion of
  the request does not change that. With an empty value (or none) the field is disabled
  and no GET is sent for that pair.
\<close>

theorem C4_page_load:
  "pending (ready p)
     = pending p
       @ (if truthy (start_point p)
          then [\<lparr>url = ''/ajax/get_stations/?city_id='' @ val_string (start_point p),
                 stationSelect = Departure_station\<rparr>] else [])
       @ (if truthy (end_point p)
          then [\<lparr>url = ''/ajax/get_stations/?city_id='' @ val_string (end_point p),
                 stationSelect = Arrival_station\<rparr>] else [])
   \<and> disabled (departure_station (ready p))
       = (trim (start_point p) = [] \<or> disabled (departure_station p))
   \<and> disabled (arrival_station (ready p))
       = (trim (end_point p) = [] \<or> disabled (arrival_station p))
   \<and> (truthy (start_point p) \<longrightarrow>
        options (departure_station (step (Success (length (pending p)) d) (ready p)))
          = map option_markup (results d)
        \<and> disabled (departure_station (step (Success (length (pending p)) d) (ready p)))
          = disabled (departure_station (ready p)))
   \<and> (truthy (end_point p) \<longrightarrow>
        options (arrival_station (step (Success (length (pending (ready p)) - 1) d) (ready p)))
          = map option_markup (results d)
        \<and> disabled (arrival_station (step (Success (length (pending (ready p)) - 1) d) (ready p)))
          = disabled (arrival_station (ready p)))
   \<and> (\<not> truthy (start_point p) \<longrightarrow> disabled (departure_station (ready p)))
   \<and> (\<not> truthy (end_point p) \<longrightarrow> disabled (arrival_station (ready p)))"
proof (intro conjI impI)
  show "\<not> truthy (start_point p) \<Longrightarrow> disabled (departure_station (ready p))"
    by (simp add: ready_fields(4) not_truthy_trim)
  show "\<not> truthy (end_point p) \<Longrightarrow> disabled (arrival_station (ready p))"
    by (simp add: ready_fields(5) not_truthy_trim)
  show "truthy (start_point p) \<Longrightarrow>
      options (departure_station (step (Success (length (pending p)) d) (ready p)))
        = map option_markup (results d)"
    by (rule ready_start_success)
  show "truthy (end_point p) \<Longrightarrow>
      options (arrival_station (step (Success (length (pending (ready p)) - 1) d) (ready p)))
        = map option_markup (results d)"
    by (rule ready_end_success)
qed (rule ready_fields(1) ready_fields(4) ready_fields(5) step_success_disabled)+

text \<open>The same at two concrete pages: \<^verbatim>\<open>start_point\<close> at \<^verbatim>\<open>"5"\<close> with an empty
  \<^verbatim>\<open>end_point\<close>, and the other way round.\<close>

theorem C4_page_load_witness:
  \<open>truthy (start_point (rendered_page (Some ''5'') (Some [])))
   \<and> \<not> truthy (end_point (rendered_page (Some ''5'') (Some [])))
   \<and> pending (ready (rendered_page (Some ''5'') (Some [])))
       = [\<lparr>url = ''/ajax/get_stations/?city_id=5'', stationSelect = Departure_station\<rparr>]
   \<and> options (departure_station
        (step (Success 0 response_AB) (ready (rendered_page (Some ''5'') (Some [])))))
       = map option_markup (results response_AB)
   \<and> \<not> disabled (departure_station
        (step (Success 0 response_AB) (ready (rendered_page (Some ''5'') (Some [])))))
   \<and> disabled (arrival_station (ready (rendered_page (Some ''5'') (Some []))))
   \<and> \<not> truthy (start_point (rendered_page None (Some ''7'')))
   \<and> truthy (end_point (rendered_page None (Some ''7'')))
   \<and> pending (ready (rendered_page None (Some ''7'')))
       = [\<lparr>url = ''/ajax/get_stations/?city_id=7'', stationSelect = Arrival_station\<rparr>]
   \<and> options (arrival_station
        (step (Success 0 response_AB) (ready (rendered_page None (Some ''7'')))))
       = map option_markup (results response_AB)
   \<and> disabled (departure_station (ready (rendered_page None (Some ''7''))))\<close>
proof -
  let ?A = "rendered_page (Some ''5'') (Some [])" and ?B = "rendered_page None (Some ''7'')"
  have vals: "start_point ?A = Some ''5''" "end_point ?A = Some []" "pending ?A = []"
      "start_point ?B = None" "end_point ?B = Some ''7''" "pending ?B = []"
      "\<not> disabled (departure_station ?A)" "\<not> disabled (arrival_station ?B)"
    by (simp_all add: rendered_page_def)
  have sp: "\<not> is_space CHR ''5''" "\<not> is_space CHR ''7''"
    by (simp_all add: is_space_def)
  have last_B: "length (pending (ready ?B)) - Suc 0 = 0"
    by (simp add: ready_fields(1) vals)
  from C4_page_load [of ?A response_AB] C4_page_load [of ?B response_AB]
  show ?thesis
    by (simp add: vals sp last_B del: step.simps)
qed

subsection \<open>C5: a fetch that fails or never completes\<close>

text \<open>
  C5: a change event leaves the options of the bound station field as they were and sets
  its \<open>disabled\<close> flag from the city value alone. If the request then fails, or never
  completes, the options are still those from before the change, and the flag is the one
  the change handler set; a request that succeeds does not touch the flag either.
\<close>

theorem C5_failed_fetch:
  "options (departure_station (run [Change_start v, Failure (length (pending p))] p))
     = options (departure_station p)
   \<and> disabled (departure_station (run [Change_start v, Failure (length (pending p))] p))
       = (\<not> truthy v)
   \<and> options (departure_station (run [Change_start v] p)) = options (departure_station p)
   \<and> disabled (departure_station (run [Change_start v] p)) = (\<not> truthy v)
   \<and> disabled (departure_station (run [Change_start v, Success (length (pending p)) d] p))
       = (\<not> truthy v)
   \<and> options (arrival_station (run [Change_end v, Failure (length (pending p))] p))
       = options (arrival_station p)
   \<and> disabled (arrival_station (run [Change_end v, Failure (length (pending p))] p))
       = (\<not> truthy v)
   \<and> options (arrival_station (run [Change_end v] p)) = options (arrival_station p)
   \<and> disabled (arrival_station (run [Change_end v] p)) = (\<not> truthy v)
   \<and> disabled (arrival_station (run [Change_end v, Success (length (pending p)) d] p))
       = (\<not> truthy v)
   \<and> departure_station (step (Failure i) q) = departure_station q
   \<and> arrival_station (step (Failure i) q) = arrival_station q"
  by (simp add: run_Cons run_Nil step_failure_fields step_success_disabled
        change_start_fields change_end_fields del: step.simps(3,4))

subsection \<open>C6: two changes in a row\<close>

text \<open>
  C6: after two changes of the same city field (\<open>v1\<close>, then \<open>v2\<close>) two requests are in
  flight, and when both complete the station field holds the response of the callback that
  ran last: that of \<open>v2\<close> when the responses arrive in order, that of \<open>v1\<close> (no longer the
  selected city) when they arrive swapped.
\<close>

theorem C6_last_callback_wins:
  "pending (run [Change_start v1, Change_start v2] p)
     = pending p
       @ [\<lparr>url = ''/ajax/get_stations/?city_id='' @ val_string v1, stationSelect = Departure_station\<rparr>,
          \<lparr>url = ''/ajax/get_stations/?city_id='' @ val_string v2, stationSelect = Departure_station\<rparr>]
   \<and> options (departure_station
        (run [Change_start v1, Change_start v2,
              Success (length (pending p)) d1, Success (length (pending p)) d2] p))
       = map option_markup (results d2)
   \<and> options (departure_station
        (run [Change_start v1, Change_start v2,
              Success (Suc (length (pending p))) d2, Success (length (pending p)) d1] p))
       = map option_markup (results d1)
   \<and> pending (run [Change_end v1, Change_end v2] p)
     = pending p
       @ [\<lparr>url = ''/ajax/get_stations/?city_id='' @ val_string v1, stationSelect = Arrival_station\<rparr>,
          \<lparr>url = ''/ajax/get_stations/?city_id='' @ val_string v2, stationSelect = Arrival_station\<rparr>]
   \<and> options (arrival_station
        (run [Change_end v1, Change_end v2,
              Success (length (pending p)) d1, Success (length (pending p)) d2] p))
       = map option_markup (results d2)
   \<and> options (arrival_station
        (run [Change_end v1, Change_end v2,
              Success (Suc (length (pending p))) d2, Success (length (pending p)) d1] p))
       = map option_markup (results d1)"
proof -
  have s: "pending (step (Change_start v2) (step (Change_start v1) p))
     = pending p
       @ [\<lparr>url = ''/ajax/get_stations/?city_id='' @ val_string v1, stationSelect = Departure_station\<rparr>,
          \<lparr>url = ''/ajax/get_stations/?city_id='' @ val_string v2, stationSelect = Departure_station\<rparr>]"
    by (rule change_start_twice)
  have e: "pending (step (Change_end v2) (step (Change_end v1) p))
     = pending p
       @ [\<lparr>url = ''/ajax/get_stations/?city_id='' @ val_string v1, stationSelect = Arrival_station\<rparr>,
          \<lparr>url = ''/ajax/get_stations/?city_id='' @ val_string v2, stationSelect = Arrival_station\<rparr>]"
    by (rule change_end_twice)
  show ?thesis
    using s e two_requests_in_order [OF s, where ?d1.0 = d1 and ?d2.0 = d2]
      two_requests_swapped [OF s, where ?d1.0 = d1 and ?d2.0 = d2]
      two_requests_in_order [OF e, where ?d1.0 = d1 and ?d2.0 = d2]
      two_requests_swapped [OF e, where ?d1.0 = d1 and ?d2.0 = d2]
    by (simp add: run_Cons run_Nil del: step.simps)
qed

subsection \<open>C7: the two pairs are independent\<close>

text \<open>
  C7: a change event on \<^verbatim>\<open>start_point\<close>, and the completion of the fetch it sent, leave
  \<^verbatim>\<open>arrival_station\<close> (its options and its \<open>disabled\<close> flag) as it was; likewise
  \<^verbatim>\<open>end_point\<close> and \<^verbatim>\<open>departure_station\<close>.
\<close>

theorem C7_pairs_independent:
  "arrival_station (step (Change_start v) p) = arrival_station p
   \<and> arrival_station (run [Change_start v, Success (length (pending p)) d] p) = arrival_station p
   \<and> arrival_station (on_success Departure_station d q) = arrival_station q
   \<and> departure_station (step (Change_end v) p) = departure_station p
   \<and> departure_station (run [Change_end v, Success (length (pending p)) d] p) = departure_station p
   \<and> departure_station (on_success Arrival_station d q) = departure_station q"
proof (intro conjI)
  show "arrival_station (step (Change_start v) p) = arrival_station p"
    by (simp add: change_start_fields)
  show "departure_station (step (Change_end v) p) = departure_station p"
    by (simp add: change_end_fields)
  show "arrival_station (run [Change_start v, Success (length (pending p)) d] p) = arrival_station p"
    by (simp only: run_Cons run_Nil change_then_success_other)
  show "departure_station (run [Change_end v, Success (length (pending p)) d] p) = departure_station p"
    by (simp only: run_Cons run_Nil change_then_success_other)
  show "arrival_station (on_success Departure_station d q) = arrival_station q"
    using on_success_other [of Arrival_station Departure_station d q] by simp
  show "departure_station (on_success Arrival_station d q) = departure_station q"
    using on_success_other [of Departure_station Arrival_station d q] by simp
qed

subsection \<open>C8: disabling at page load keeps the options\<close>

text \<open>
  C8: when the trimmed value of a city field is empty at page load, the bound station field
  is disabled and its options are left in place.
\<close>

theorem C8_load_disable_keeps_options:
  "(trim (start_point p) = [] \<longrightarrow>
      disabled (departure_station (ready p))
      \<and> options (departure_station (ready p)) = options (departure_station p))
   \<and> (trim (end_point p) = [] \<longrightarrow>
      disabled (arrival_station (ready p))
      \<and> options (arrival_station (ready p)) = options (arrival_station p))"
  by (simp add: ready_fields)

text \<open>The same at a concrete page.\<close>

theorem C8_load_disable_keeps_options_witness:
  \<open>trim (start_point (rendered_page (Some []) None)) = []
   \<and> trim (end_point (rendered_page (Some []) None)) = []
   \<and> disabled (departure_station (ready (rendered_page (Some []) None)))
   \<and> options (departure_station (ready (rendered_page (Some []) None)))
       = [''<option value="9">Old</option>'']
   \<and> disabled (arrival_station (ready (rendered_page (Some []) None)))
   \<and> options (arrival_station (ready (rendered_page (Some []) None)))
       = [''<option value="8">Stale</option>'']\<close>
proof -
  have vals: "start_point (rendered_page (Some []) None) = Some []"
    "end_point (rendered_page (Some []) None) = None"
    \<open>options (departure_station (rendered_page (Some []) None)) = [''<option value="9">Old</option>'']\<close>
    \<open>options (arrival_station (rendered_page (Some []) None)) = [''<option value="8">Stale</option>'']\<close>
    by (simp_all add: rendered_page_def)
  from C8_load_disable_keeps_options [of "rendered_page (Some []) None"]
  show ?thesis
    by (simp add: vals)
qed

subsection \<open>C9: the markup of an option\<close>

text \<open>
  C9: the markup appended for an entry is the concatenation of \<^verbatim>\<open><option value="\<close>,
  the string of the id, \<^verbatim>\<open>">\<close>, the string of the text and \<^verbatim>\<open></option>\<close>. A string is
  taken as it is, markup characters included; a number gives its decimal numeral (digits
  only, no leading zero, a minus sign when negative), \<^verbatim>\<open>null\<close>, a missing field, a boolean
  and an object give their names, an array the strings of its elements joined by commas.
\<close>

theorem C9_option_markup:
  \<open>option_markup it
     = ''<option value="'' @ to_string (item_id it) @ ''">'' @ to_string (item_text it) @ ''</option>''
   \<and> options (get_field sid (on_success sid d p))
       = map (\<lambda>it. ''<option value="'' @ to_string (item_id it) @ ''">''
                     @ to_string (item_text it) @ ''</option>'') (results d)
   \<and> to_string (JStr a) = a
   \<and> to_string JNull = ''null'' \<and> to_string JUndefined = ''undefined''
   \<and> to_string (JBool True) = ''true'' \<and> to_string (JBool False) = ''false''
   \<and> to_string JObj = ''[object Object]''
   \<and> (0 \<le> Rep_safe_int n \<longrightarrow>
        to_string (JNum n) \<noteq> []
        \<and> set (to_string (JNum n)) \<subseteq> set ''0123456789''
        \<and> (length (to_string (JNum n)) = 1 \<or> hd (to_string (JNum n)) \<noteq> CHR ''0'')
        \<and> foldl (\<lambda>a c. 10 * a + (of_char c - 48)) 0 (to_string (JNum n))
            = nat (Rep_safe_int n))
   \<and> (Rep_safe_int n < 0 \<longrightarrow>
        hd (to_string (JNum n)) = CHR ''-''
        \<and> tl (to_string (JNum n)) \<noteq> []
        \<and> set (tl (to_string (JNum n))) \<subseteq> set ''0123456789''
        \<and> hd (tl (to_string (JNum n))) \<noteq> CHR ''0''
        \<and> foldl (\<lambda>a c. 10 * a + (of_char c - 48)) 0 (tl (to_string (JNum n)))
            = nat (- Rep_safe_int n))
   \<and> to_string (JNum num_120) = ''120'' \<and> to_string (JNum num_minus_7) = ''-7''
   \<and> to_string (JArr []) = []
   \<and> to_string (JArr [JNull]) = [] \<and> to_string (JArr [JUndefined]) = []
   \<and> (x \<noteq> JNull \<and> x \<noteq> JUndefined \<longrightarrow> to_string (JArr [x]) = to_string x)
   \<and> to_string (JArr (x # y # ys)) = to_string (JArr [x]) @ '','' @ to_string (JArr (y # ys))
   \<and> option_markup \<lparr>item_id = JStr b, item_text = JStr c\<rparr>
       = ''<option value="'' @ b @ ''">'' @ c @ ''</option>''
   \<and> option_markup \<lparr>item_id = JStr ''7'', item_text = JStr ''<b>R&D</b>''\<rparr>
       = ''<option value="7"><b>R&D</b></option>''
   \<and> option_markup \<lparr>item_id = JNum num_1, item_text = JStr ''A''\<rparr>
       = ''<option value="1">A</option>''
   \<and> option_markup \<lparr>item_id = JNum num_minus_7, item_text = JNull\<rparr>
       = ''<option value="-7">null</option>''
   \<and> option_markup \<lparr>item_id = JNum num_120, item_text = JArr [JBool True, JNull, JObj]\<rparr>
       = ''<option value="120">true,,[object Object]</option>''\<close>
proof -
  have concat: \<open>option_markup it
     = ''<option value="'' @ to_string (item_id it) @ ''">'' @ to_string (item_text it) @ ''</option>''\<close>
    by (simp add: option_markup_def)
  have appended: "options (get_field sid (on_success sid d p))
       = map (\<lambda>it. ''<option value=\"'' @ to_string (item_id it) @ ''\">''
                     @ to_string (item_text it) @ ''</option>'') (results d)"
    unfolding on_success_options option_markup_concat ..
  have scalars: "to_string (JStr a) = a"
    "to_string JNull = ''null''" "to_string JUndefined = ''undefined''"
    "to_string (JBool True) = ''true''" "to_string (JBool False) = ''false''"
    "to_string JObj = ''[object Object]''"
    by simp_all
  have examples:
    \<open>option_markup \<lparr>item_id = JStr b, item_text = JStr c\<rparr>
       = ''<option value="'' @ b @ ''">'' @ c @ ''</option>''\<close>
    \<open>option_markup \<lparr>item_id = JStr ''7'', item_text = JStr ''<b>R&D</b>''\<rparr>
       = ''<option value="7"><b>R&D</b></option>''\<close>
    \<open>option_markup \<lparr>item_id = JNum num_1, item_text = JStr ''A''\<rparr>
       = ''<option value="1">A</option>''\<close>
    \<open>option_markup \<lparr>item_id = JNum num_minus_7, item_text = JNull\<rparr>
       = ''<option value="-7">null</option>''\<close>
    \<open>option_markup \<lparr>item_id = JNum num_120, item_text = JArr [JBool True, JNull, JObj]\<rparr>
       = ''<option value="120">true,,[object Object]</option>''\<close>
    by (simp_all add: option_markup_def num_1.rep_eq num_minus_7.rep_eq num_120.rep_eq
          digits.simps digit_char_def)
  have nonneg: "0 \<le> Rep_safe_int n \<longrightarrow>
        to_string (JNum n) \<noteq> []
        \<and> set (to_string (JNum n)) \<subseteq> set ''0123456789''
        \<and> (length (to_string (JNum n)) = 1 \<or> hd (to_string (JNum n)) \<noteq> CHR ''0'')
        \<and> foldl (\<lambda>a c. 10 * a + (of_char c - 48)) 0 (to_string (JNum n))
            = nat (Rep_safe_int n)"
  proof
    assume "0 \<le> Rep_safe_int n"
    then have s: "to_string (JNum n) = digits (nat (Rep_safe_int n))" by simp
    show "to_string (JNum n) \<noteq> []
        \<and> set (to_string (JNum n)) \<subseteq> set ''0123456789''
        \<and> (length (to_string (JNum n)) = 1 \<or> hd (to_string (JNum n)) \<noteq> CHR ''0'')
        \<and> foldl (\<lambda>a c. 10 * a + (of_char c - 48)) 0 (to_string (JNum n))
            = nat (Rep_safe_int n)"
      unfolding s using digits_nonempty digits_set digits_lead digits_value by blast
  qed
  have negative: "Rep_safe_int n < 0 \<longrightarrow>
        hd (to_string (JNum n)) = CHR ''-''
        \<and> tl (to_string (JNum n)) \<noteq> []
        \<and> set (tl (to_string (JNum n))) \<subseteq> set ''0123456789''
        \<and> hd (tl (to_string (JNum n))) \<noteq> CHR ''0''
        \<and> foldl (\<lambda>a c. 10 * a + (of_char c - 48)) 0 (tl (to_string (JNum n)))
            = nat (- Rep_safe_int n)"
  proof
    assume neg: "Rep_safe_int n < 0"
    then have s: "to_string (JNum n) = CHR ''-'' # digits (nat (- Rep_safe_int n))" by simp
    from neg have "0 < nat (- Rep_safe_int n)" by simp
    then have "hd (digits (nat (- Rep_safe_int n))) \<noteq> CHR ''0''" by (rule digits_hd)
    then show "hd (to_string (JNum n)) = CHR ''-''
        \<and> tl (to_string (JNum n)) \<noteq> []
        \<and> set (tl (to_string (JNum n))) \<subseteq> set ''0123456789''
        \<and> hd (tl (to_string (JNum n))) \<noteq> CHR ''0''
        \<and> foldl (\<lambda>a c. 10 * a + (of_char c - 48)) 0 (tl (to_string (JNum n)))
            = nat (- Rep_safe_int n)"
      unfolding s list.sel using digits_nonempty digits_set digits_value by blast
  qed
  have numerals: "to_string (JNum num_120) = ''120''" "to_string (JNum num_minus_7) = ''-7''"
    by (simp_all add: num_120.rep_eq num_minus_7.rep_eq digits.simps digit_char_def)
  have arrays: "to_string (JArr []) = []"
    "to_string (JArr [JNull]) = []" "to_string (JArr [JUndefined]) = []"
    by simp_all
  have single: "x \<noteq> JNull \<and> x \<noteq> JUndefined \<longrightarrow> to_string (JArr [x]) = to_string x"
    by (cases x) simp_all
  have joined:
    "to_string (JArr (x # y # ys)) = to_string (JArr [x]) @ '','' @ to_string (JArr (y # ys))"
    by (cases x) simp_all
  show ?thesis
    using concat appended scalars examples nonneg negative numerals arrays single joined
    by blast
qed

text \<open>The same at the numbers 120 and -7 and at a one-element array.\<close>

theorem C9_option_markup_witness:
  \<open>0 \<le> Rep_safe_int num_120
   \<and> set (to_string (JNum num_120)) \<subseteq> set ''0123456789''
   \<and> foldl (\<lambda>a c. 10 * a + (of_char c - 48)) 0 (to_string (JNum num_120)) = (120 :: nat)
   \<and> Rep_safe_int num_minus_7 < 0
   \<and> hd (to_string (JNum num_minus_7)) = CHR ''-''
   \<and> foldl (\<lambda>a c. 10 * a + (of_char c - 48)) 0 (tl (to_string (JNum num_minus_7))) = (7 :: nat)
   \<and> JBool True \<noteq> JNull \<and> JBool True \<noteq> JUndefined
   \<and> to_string (JArr [JBool True]) = ''true''
   \<and> option_markup \<lparr>item_id = JNum num_120, item_text = JArr [JBool True]\<rparr>
       = ''<option value="'' @ to_string (JNum num_120) @ ''">true</option>''\<close>
proof -
  have reps: "Rep_safe_int num_120 = 120" "Rep_safe_int num_minus_7 = - 7"
    by (simp_all add: num_120.rep_eq num_minus_7.rep_eq)
  from C9_option_markup [where n = num_120 and x = "JBool True"
      and it = "\<lparr>item_id = JNum num_120, item_text = JArr [JBool True]\<rparr>"]
    C9_option_markup [where n = num_minus_7 and x = "JBool True"]
  show ?thesis
    by (simp add: reps digits.simps digit_char_def)
qed

subsection \<open>C10: a blank city value at page load\<close>

text \<open>
  C10: when a city field holds a non-empty value of white space only at page load, a GET
  with that value is sent, the bound station field is disabled, and when the request
  succeeds the field is repopulated with the response and stays disabled.
\<close>

theorem C10_whitespace_at_load:
  "(start_point p = Some v \<and> v \<noteq> [] \<and> trim (Some v) = [] \<longrightarrow>
      length (pending p) < length (pending (ready p))
      \<and> pending (ready p) ! length (pending p)
          = \<lparr>url = ''/ajax/get_stations/?city_id='' @ v, stationSelect = Departure_station\<rparr>
      \<and> disabled (departure_station (ready p))
      \<and> options (departure_station (step (Success (length (pending p)) d) (ready p)))
          = map option_markup (results d)
      \<and> disabled (departure_station (step (Success (length (pending p)) d) (ready p))))
   \<and> (end_point p = Some w \<and> w \<noteq> [] \<and> trim (Some w) = [] \<longrightarrow>
      length (pending (ready p)) - 1 < length (pending (ready p))
      \<and> pending (ready p) ! (length (pending (ready p)) - 1)
          = \<lparr>url = ''/ajax/get_stations/?city_id='' @ w, stationSelect = Arrival_station\<rparr>
      \<and> disabled (arrival_station (ready p))
      \<and> options (arrival_station (step (Success (length (pending (ready p)) - 1) d) (ready p)))
          = map option_markup (results d)
      \<and> disabled (arrival_station (step (Success (length (pending (ready p)) - 1) d) (ready p))))"
proof (intro conjI impI; elim conjE)
  assume v: "start_point p = Some v" "v \<noteq> []" "trim (Some v) = []"
  then have t: "truthy (start_point p)" by simp
  show "length (pending p) < length (pending (ready p))"
    using t by (rule ready_start_request)
  show "pending (ready p) ! length (pending p)
          = \<lparr>url = ''/ajax/get_stations/?city_id='' @ v, stationSelect = Departure_station\<rparr>"
    using ready_start_request(2) [OF t] v by simp
  show d: "disabled (departure_station (ready p))"
    using v by (simp add: ready_fields(4))
  show "options (departure_station (step (Success (length (pending p)) d) (ready p)))
          = map option_markup (results d)"
    using t by (rule ready_start_success)
  show "disabled (departure_station (step (Success (length (pending p)) d) (ready p)))"
    using d by (simp only: step_success_disabled)
next
  assume w: "end_point p = Some w" "w \<noteq> []" "trim (Some w) = []"
  then have t: "truthy (end_point p)" by simp
  show "length (pending (ready p)) - 1 < length (pending (ready p))"
    using t by (rule ready_end_request)
  show "pending (ready p) ! (length (pending (ready p)) - 1)
          = \<lparr>url = ''/ajax/get_stations/?city_id='' @ w, stationSelect = Arrival_station\<rparr>"
    using ready_end_request(2) [OF t] w by simp
  show d: "disabled (arrival_station (ready p))"
    using w by (simp add: ready_fields(5))
  show "options (arrival_station (step (Success (length (pending (ready p)) - 1) d) (ready p)))
          = map option_markup (results d)"
    using t by (rule ready_end_success)
  show "disabled (arrival_station (step (Success (length (pending (ready p)) - 1) d) (ready p)))"
    using d by (simp only: step_success_disabled)
qed

text \<open>The same at a concrete page.\<close>

theorem C10_whitespace_at_load_witness:
  \<open>start_point (rendered_page (Some '' '') (Some ''  '')) = Some '' ''
   \<and> '' '' \<noteq> [] \<and> trim (Some '' '') = []
   \<and> end_point (rendered_page (Some '' '') (Some ''  '')) = Some ''  ''
   \<and> ''  '' \<noteq> [] \<and> trim (Some ''  '') = []
   \<and> pending (ready (rendered_page (Some '' '') (Some ''  '')))
       = [\<lparr>url = ''/ajax/get_stations/?city_id= '', stationSelect = Departure_station\<rparr>,
          \<lparr>url = ''/ajax/get_stations/?city_id=  '', stationSelect = Arrival_station\<rparr>]
   \<and> disabled (departure_station (ready (rendered_page (Some '' '') (Some ''  ''))))
   \<and> disabled (arrival_station (ready (rendered_page (Some '' '') (Some ''  ''))))
   \<and> options (departure_station
        (step (Success 0 response_AB) (ready (rendered_page (Some '' '') (Some ''  '')))))
       = map option_markup (results response_AB)
   \<and> disabled (departure_station
        (step (Success 0 response_AB) (ready (rendered_page (Some '' '') (Some ''  '')))))
   \<and> options (arrival_station
        (step (Success 1 response_AB) (ready (rendered_page (Some '' '') (Some ''  '')))))
       = map option_markup (results response_AB)
   \<and> disabled (arrival_station
        (step (Success 1 response_AB) (ready (rendered_page (Some '' '') (Some ''  '')))))\<close>
proof -
  let ?P = "rendered_page (Some '' '') (Some ''  '')"
  have vals: "start_point ?P = Some '' ''" "end_point ?P = Some ''  ''" "pending ?P = []"
    by (simp_all add: rendered_page_def)
  have pend: "pending (ready ?P)
       = [\<lparr>url = ''/ajax/get_stations/?city_id= '', stationSelect = Departure_station\<rparr>,
          \<lparr>url = ''/ajax/get_stations/?city_id=  '', stationSelect = Arrival_station\<rparr>]"
    by (simp add: ready_fields(1) vals)
  have last_P: "length (pending (ready ?P)) - Suc 0 = Suc 0"
    by (simp add: pend)
  from C10_whitespace_at_load [of ?P "'' ''" response_AB "''  ''"]
  show ?thesis
    by (simp add: vals is_space_def pend last_P del: step.simps)
qed

end
